theory Spec2Isabelle
  imports Complex_Main "HOL-Library.Word" "HOL-Library.Sublist"
begin

section \<open>Images and arrays\<close>

text \<open>
  An uploaded file is decoded by PIL into an image whose pixel layout depends on its
  mode: mode L holds one 8-bit band, mode RGB three. Rows are listed top to bottom,
  pixels left to right. Floating-point quantities of the program (the classifier score,
  the scaled tensor, the variance and the mean) are modelled by exact rationals: every
  finite float is a rational, and rounding of the arithmetic is not modelled.
\<close>

type_synonym u8 = "8 word"

type_synonym rgb = "u8 \<times> u8 \<times> u8"

datatype pil_image = ModeL "u8 list list" | ModeRGB "rgb list list"

text \<open>A decoded image has at least one row, and all rows have the same positive width.\<close>

definition rectangular :: "'a list list \<Rightarrow> bool" where
  "rectangular rows \<longleftrightarrow>
     rows \<noteq> [] \<and> list_all (\<lambda>r. r \<noteq> [] \<and> length r = length (hd rows)) rows"

fun valid_image :: "pil_image \<Rightarrow> bool" where
  "valid_image (ModeL g) = rectangular g"
| "valid_image (ModeRGB p) = rectangular p"

text \<open>\<open>np.array(image)\<close>: shape (H, W) for mode L, shape (H, W, 3) for mode RGB.\<close>

datatype ndarray_u8 = Arr2 "u8 list list" | Arr3 "u8 list list list"

definition np_array_rgb :: "rgb list list \<Rightarrow> u8 list list list" where
  "np_array_rgb p = map (map (\<lambda>(r, g, b). [r, g, b])) p"

fun np_array :: "pil_image \<Rightarrow> ndarray_u8" where
  "np_array (ModeL g) = Arr2 g"
| "np_array (ModeRGB p) = Arr3 (np_array_rgb p)"

section \<open>preprocess_image\<close>

text \<open>\<open>image.convert('RGB')\<close>: a mode L pixel is copied into the three bands.\<close>

fun convert_RGB :: "pil_image \<Rightarrow> rgb list list" where
  "convert_RGB (ModeL g) = map (map (\<lambda>v. (v, v, v))) g"
| "convert_RGB (ModeRGB p) = p"

definition expand_dims0 :: "'a \<Rightarrow> 'a list" where
  "expand_dims0 a = [a]"

text \<open>
  The interpolation of \<open>image.resize\<close> belongs to PIL and is a parameter \<open>resize\<close>
  of the model, applied to the requested size \<open>(width, height)\<close> and an RGB image.
  What PIL guarantees of it is \<open>resize_contract\<close>: the result has the requested size.
\<close>

type_synonym resizer = "nat \<times> nat \<Rightarrow> rgb list list \<Rightarrow> rgb list list"

definition resize_contract :: "resizer \<Rightarrow> bool" where
  "resize_contract resize \<longleftrightarrow>
     (\<forall>w h p. rectangular p \<longrightarrow>
        length (resize (w, h) p) = h \<and> (\<forall>row \<in> set (resize (w, h) p). length row = w))"

definition preprocess_image :: "resizer \<Rightarrow> pil_image \<Rightarrow> rat list list list list" where
  "preprocess_image resize img =
     (let img = convert_RGB img;
          img = resize (224, 224) img;
          image_array = np_array_rgb img;
          image_array = expand_dims0 image_array
      in map (map (map (map (\<lambda>v. of_nat (unat v) / 255)))) image_array)"

text \<open>Nearest-neighbour sampling, one resizer that meets the contract.\<close>

definition resize_nearest :: resizer where
  "resize_nearest = (\<lambda>(w, h) p.
     map (\<lambda>y. map (\<lambda>x. p ! (y * length p div h) ! (x * length (hd p) div w)) [0..<w]) [0..<h])"

section \<open>Python number formatting\<close>

fun str_nat :: "nat \<Rightarrow> string" where
  "str_nat n =
     (if n < 10 then [''0123456789'' ! n]
      else str_nat (n div 10) @ [''0123456789'' ! (n mod 10)])"

declare str_nat.simps [simp del]

definition round_half_even :: "rat \<Rightarrow> int" where
  "round_half_even x =
     (let f = \<lfloor>x\<rfloor>; d = x - of_int f
      in if d < 1 / 2 then f else if 1 / 2 < d then f + 1 else if even f then f else f + 1)"

text \<open>The format specification \<open>.2f\<close>.\<close>

definition format_2f :: "rat \<Rightarrow> string" where
  "format_2f x =
     (let n = nat (round_half_even (\<bar>x\<bar> * 100))
      in (if x < 0 then ''-'' else []) @ str_nat (n div 100) @ ''.''
           @ str_nat (n mod 100 div 10) @ str_nat (n mod 10))"

text \<open>The format specification \<open>.0%\<close>.\<close>

definition format_0pct :: "rat \<Rightarrow> string" where
  "format_0pct x =
     (if x < 0 then ''-'' else []) @ str_nat (nat (round_half_even (\<bar>x\<bar> * 100))) @ ''%''"

section \<open>analyze_image_issues\<close>

datatype cv_error = Empty_source | Invalid_number_of_channels

text \<open>
  \<open>cv2.cvtColor(src, cv2.COLOR_RGB2BGR)\<close> accepts three or four channels and raises
  \<open>cv2.error\<close> otherwise, in particular on a two-dimensional array (one channel).
\<close>

fun cvtColor_RGB2BGR :: "ndarray_u8 \<Rightarrow> cv_error + (u8 \<times> u8 \<times> u8) list list" where
  "cvtColor_RGB2BGR (Arr2 g) =
     (if concat g = [] then Inl Empty_source else Inl Invalid_number_of_channels)"
| "cvtColor_RGB2BGR (Arr3 a) =
     (if concat a = [] then Inl Empty_source
      else if list_all (list_all (\<lambda>px. length px = 3 \<or> length px = 4)) a
        then Inr (map (map (\<lambda>px. (px ! 2, px ! 1, px ! 0))) a)
      else Inl Invalid_number_of_channels)"

text \<open>
  \<open>cv2.COLOR_BGR2GRAY\<close> on 8-bit data: the weights 0.114, 0.587, 0.299 in 15-bit
  fixed point, rounded to nearest.
\<close>

definition bgr2gray :: "u8 \<times> u8 \<times> u8 \<Rightarrow> u8" where
  "bgr2gray = (\<lambda>(b, g, r).
     of_nat ((unat b * 3735 + unat g * 19235 + unat r * 9798 + 16384) div 32768))"

definition cvtColor_BGR2GRAY :: "(u8 \<times> u8 \<times> u8) list list \<Rightarrow> u8 list list" where
  "cvtColor_BGR2GRAY cv_image = map (map bgr2gray) cv_image"

text \<open>
  \<open>cv2.Laplacian(gray, cv2.CV_64F)\<close> with the default aperture: the kernel
  \<open>[[0, 1, 0], [1, -4, 1], [0, 1, 0]]\<close>, pixels beyond the border mirrored without
  repeating the edge pixel (\<open>BORDER_REFLECT_101\<close>). The responses are integers.
\<close>

definition borderInterpolate :: "int \<Rightarrow> nat \<Rightarrow> nat" where
  "borderInterpolate p len =
     (if 0 \<le> p \<and> p < int len then nat p
      else if len = 1 then 0
      else if p < 0 then nat (- p)
      else nat (2 * int len - 2 - p))"

definition pixel_at :: "u8 list list \<Rightarrow> int \<Rightarrow> int \<Rightarrow> int" where
  "pixel_at src y x =
     (let row = src ! borderInterpolate y (length src)
      in int (unat (row ! borderInterpolate x (length row))))"

definition Laplacian :: "u8 list list \<Rightarrow> int list list" where
  "Laplacian src =
     map (\<lambda>y. map (\<lambda>x.
            pixel_at src (int y - 1) (int x)
          + pixel_at src (int y) (int x - 1)
          - 4 * pixel_at src (int y) (int x)
          + pixel_at src (int y) (int x + 1)
          + pixel_at src (int y + 1) (int x))
        [0..<length (src ! y)]) [0..<length src]"

text \<open>\<open>np.mean\<close> and \<open>ndarray.var\<close> over all elements (population variance).\<close>

definition np_mean :: "rat list \<Rightarrow> rat" where
  "np_mean xs = sum_list xs / of_nat (length xs)"

definition np_var :: "rat list \<Rightarrow> rat" where
  "np_var xs = (let m = np_mean xs in np_mean (map (\<lambda>x. (x - m)\<^sup>2) xs))"

text \<open>The warning sign and its variation selector, U+26A0 U+FE0F, in UTF-8.\<close>

definition warning_sign :: string where
  "warning_sign = [CHR 0xE2, CHR 0x9A, CHR 0xA0, CHR 0xEF, CHR 0xB8, CHR 0x8F]"

definition blur_message :: "rat \<Rightarrow> string" where
  "blur_message laplacian_var =
     warning_sign @ '' Potential Blur Detected (Variance: '' @ format_2f laplacian_var @ '')''"

definition dark_message :: "rat \<Rightarrow> string" where
  "dark_message brightness =
     warning_sign @ '' Potential Darkness Detected (Brightness: '' @ format_2f brightness @ '')''"

definition analyze_image_issues :: "pil_image \<Rightarrow> cv_error + string list" where
  "analyze_image_issues img =
     (case cvtColor_RGB2BGR (np_array img) of
        Inl e \<Rightarrow> Inl e
      | Inr cv_image \<Rightarrow>
          (let gray = cvtColor_BGR2GRAY cv_image;
               laplacian_var = np_var (map of_int (concat (Laplacian gray)));
               is_blurry = (laplacian_var < 100);
               brightness = np_mean (map (\<lambda>v. of_nat (unat v)) (concat gray));
               is_dark = (brightness < 70);
               issues = [];
               issues = (if is_blurry then issues @ [blur_message laplacian_var] else issues);
               issues = (if is_dark then issues @ [dark_message brightness] else issues)
           in Inr issues))"

section \<open>The analysis column of the page\<close>

text \<open>
  The Streamlit calls made in the results column once a file is uploaded, in order.
  The classifier is a parameter \<open>model\<close>: it maps the tensor to \<open>prediction[0][0]\<close>.
\<close>

datatype st_call =
    Subheader string
  | Success string
  | Error string
  | Write string
  | Expander string "st_call list"

definition good_confidence :: "rat \<Rightarrow> string" where
  "good_confidence c =
     ''The model is '' @ format_0pct c @ '' confident this image is of good quality.''"

definition bad_confidence :: "rat \<Rightarrow> string" where
  "bad_confidence c =
     ''The model is '' @ format_0pct c @ '' confident this image is of bad quality.''"

definition result_banner :: "rat \<Rightarrow> st_call" where
  "result_banner score =
     (if 1 / 2 < score then Success ''**Result: Good Quality**''
      else Error ''**Result: Bad Quality**'')"

definition technical_details :: "rat \<Rightarrow> string list \<Rightarrow> st_call list" where
  "technical_details score issues =
     [if 1 / 2 < score then Write (good_confidence score)
      else Write (bad_confidence (1 - score))]
     @ (if issues \<noteq> []
          then Write ''Further analysis found these potential issues:'' # map Write issues
        else if 1 / 2 < score
          then [Write ''No specific technical issues (blur, darkness) were flagged.'']
        else [Write (''AI predicts low quality, but specific issues (blur/darkness) ''
                     @ ''were not strongly detected by our checks.'')])"

definition analysis_results ::
  "(rat list list list list \<Rightarrow> rat) \<Rightarrow> resizer \<Rightarrow> pil_image \<Rightarrow> cv_error + st_call list" where
  "analysis_results model resize img =
     (let processed_image = preprocess_image resize img;
          score = model processed_image
      in case analyze_image_issues img of
           Inl e \<Rightarrow> Inl e
         | Inr issues \<Rightarrow>
             Inr [Subheader ''Analysis Results:'',
                  result_banner score,
                  Expander ''Show Technical Details'' (technical_details score issues)])"

section \<open>Notions used to state the properties\<close>

text \<open>
  The single-channel intensity field of a three-channel image, the variance of its
  discrete Laplacian and its mean intensity, as the specification names them.
\<close>

definition intensity_field :: "rgb list list \<Rightarrow> u8 list list" where
  "intensity_field p = map (map (\<lambda>(r, g, b). bgr2gray (b, g, r))) p"

definition laplacian_variance :: "u8 list list \<Rightarrow> rat" where
  "laplacian_variance gray = np_var (map of_int (concat (Laplacian gray)))"

definition mean_intensity :: "u8 list list \<Rightarrow> rat" where
  "mean_intensity gray = np_mean (map (\<lambda>v. of_nat (unat v)) (concat gray))"

text \<open>The kind of an issue is read off the fixed text that starts its message.\<close>

definition is_blur_issue :: "string \<Rightarrow> bool" where
  "is_blur_issue s \<longleftrightarrow> prefix (warning_sign @ '' Potential Blur Detected'') s"

definition is_dark_issue :: "string \<Rightarrow> bool" where
  "is_dark_issue s \<longleftrightarrow> prefix (warning_sign @ '' Potential Darkness Detected'') s"

text \<open>A flat image of one colour, and a checkerboard of black and white pixels.\<close>

definition uniform_image :: "nat \<Rightarrow> nat \<Rightarrow> rgb \<Rightarrow> pil_image" where
  "uniform_image w h px = ModeRGB (replicate h (replicate w px))"

definition checkerboard :: "nat \<Rightarrow> nat \<Rightarrow> rgb list list" where
  "checkerboard w h =
     map (\<lambda>y. map (\<lambda>x. if even (x + y) then (0, 0, 0) else (255, 255, 255)) [0..<w]) [0..<h]"

text \<open>The shape of a four-dimensional array, and the list of its elements.\<close>

definition has_shape4 :: "'a list list list list \<Rightarrow> nat \<times> nat \<times> nat \<times> nat \<Rightarrow> bool" where
  "has_shape4 t = (\<lambda>(n, h, w, c).
     length t = n
     \<and> list_all (\<lambda>a. length a = h
          \<and> list_all (\<lambda>row. length row = w \<and> list_all (\<lambda>px. length px = c) row) a) t)"

definition elements4 :: "'a list list list list \<Rightarrow> 'a list" where
  "elements4 t = concat (concat (concat t))"

text \<open>The issue lines written inside the expander of the results column.\<close>

fun written_issues :: "st_call list \<Rightarrow> string list" where
  "written_issues [Subheader t, banner, Expander l (confidence # Write intro # rest)] =
     (if intro = ''Further analysis found these potential issues:''
      then concat (map (\<lambda>c. case c of Write s \<Rightarrow> [s] | _ \<Rightarrow> []) rest) else [])"
| "written_issues calls = []"

section \<open>The analyzer on three-channel and on single-channel images\<close>

lemma cvtColor_rgb:
  assumes "rectangular p"
  shows "cvtColor_RGB2BGR (Arr3 (np_array_rgb p)) = Inr (map (map (\<lambda>(r, g, b). (b, g, r))) p)"
proof -
  have ne: "concat (np_array_rgb p) \<noteq> []"
    using assms by (cases p) (auto simp: rectangular_def np_array_rgb_def)
  have ch: "list_all (list_all (\<lambda>px. length px = 3 \<or> length px = 4)) (np_array_rgb p)"
    by (auto simp: np_array_rgb_def list_all_iff)
  have sw: "map (map (\<lambda>px. (px ! 2, px ! 1, px ! 0))) (np_array_rgb p)
              = map (map (\<lambda>(r, g, b). (b, g, r))) p"
    by (auto simp: np_array_rgb_def)
  show ?thesis using ne ch sw by simp
qed

lemma gray_rgb:
  "cvtColor_BGR2GRAY (map (map (\<lambda>(r, g, b). (b, g, r))) p) = intensity_field p"
  by (auto simp: cvtColor_BGR2GRAY_def intensity_field_def)

lemma analyze_rgb:
  assumes "rectangular p"
  shows "analyze_image_issues (ModeRGB p) =
           Inr ((if laplacian_variance (intensity_field p) < 100
                 then [blur_message (laplacian_variance (intensity_field p))] else [])
              @ (if mean_intensity (intensity_field p) < 70
                 then [dark_message (mean_intensity (intensity_field p))] else []))"
  by (simp add: analyze_image_issues_def cvtColor_rgb [OF assms] gray_rgb
        laplacian_variance_def mean_intensity_def Let_def del: cvtColor_RGB2BGR.simps)


lemma analyze_form:
  assumes "analyze_image_issues img = Inr issues"
  shows "\<exists>v b. issues = (if v < 100 then [blur_message v] else [])
                       @ (if b < 70 then [dark_message b] else [])"
proof (cases "cvtColor_RGB2BGR (np_array img)")
  case (Inl e)
  with assms show ?thesis by (simp add: analyze_image_issues_def)
next
  case (Inr cv_image)
  let ?v = "np_var (map of_int (concat (Laplacian (cvtColor_BGR2GRAY cv_image))))"
  let ?b = "np_mean (map (\<lambda>v. of_nat (unat v)) (concat (cvtColor_BGR2GRAY cv_image)))"
  have "issues = (if ?v < 100 then [blur_message ?v] else [])
               @ (if ?b < 70 then [dark_message ?b] else [])"
    using assms Inr by (auto simp: analyze_image_issues_def Let_def)
  then show ?thesis by blast
qed

lemma blur_kind [simp]: "is_blur_issue (blur_message v)" "\<not> is_dark_issue (blur_message v)"
  by (simp_all add: is_blur_issue_def is_dark_issue_def blur_message_def)

lemma dark_kind [simp]: "is_dark_issue (dark_message b)" "\<not> is_blur_issue (dark_message b)"
  by (simp_all add: is_blur_issue_def is_dark_issue_def dark_message_def)

lemma blur_dark_differ [simp]: "blur_message v \<noteq> dark_message b"
  using blur_kind(1) dark_kind(2) by metis

subsection \<open>Flat images\<close>

lemma borderInterpolate_less:
  "0 < len \<Longrightarrow> - 1 \<le> p \<Longrightarrow> p \<le> int len \<Longrightarrow> borderInterpolate p len < len"
  by (auto simp: borderInterpolate_def)

lemma pixel_at_uniform:
  assumes "0 < w" "0 < h" "- 1 \<le> y" "y \<le> int h" "- 1 \<le> x" "x \<le> int w"
  shows "pixel_at (replicate h (replicate w c)) y x = int (unat c)"
  using assms by (simp add: pixel_at_def Let_def borderInterpolate_less)

lemma Laplacian_uniform:
  assumes "0 < w" "0 < h"
  shows "\<forall>v \<in> set (concat (Laplacian (replicate h (replicate w c)))). v = 0"
  using assms by (auto simp: Laplacian_def pixel_at_uniform)

lemma np_mean_const:
  assumes "xs \<noteq> []" "\<forall>x \<in> set xs. x = c"
  shows "np_mean xs = c"
proof -
  have "xs = replicate (length xs) c"
    using assms(2) by (simp add: replicate_length_same)
  then have "sum_list xs = of_nat (length xs) * c"
    by (metis sum_list_replicate)
  with assms(1) show ?thesis by (simp add: np_mean_def)
qed

lemma np_var_zero:
  assumes "\<forall>x \<in> set xs. x = 0"
  shows "np_var xs = 0"
proof (cases "xs = []")
  case True
  then show ?thesis by (simp add: np_var_def np_mean_def)
next
  case False
  have m: "np_mean xs = 0" using False assms by (rule np_mean_const)
  have "np_mean (map (\<lambda>x. (x - 0)\<^sup>2) xs) = 0"
    using False assms by (intro np_mean_const) auto
  with m show ?thesis by (simp add: np_var_def)
qed

lemma rectangular_replicate: "0 < w \<Longrightarrow> 0 < h \<Longrightarrow> rectangular (replicate h (replicate w x))"
  by (cases h) (auto simp: rectangular_def list_all_iff)

lemma intensity_uniform:
  "intensity_field (replicate h (replicate w (r, g, b))) = replicate h (replicate w (bgr2gray (b, g, r)))"
  by (simp add: intensity_field_def)

lemma laplacian_variance_uniform:
  assumes "0 < w" "0 < h"
  shows "laplacian_variance (replicate h (replicate w c)) = 0"
  unfolding laplacian_variance_def
  using Laplacian_uniform [OF assms, of c] by (intro np_var_zero) auto

lemma mean_intensity_uniform:
  assumes "0 < w" "0 < h"
  shows "mean_intensity (replicate h (replicate w c)) = of_nat (unat c)"
  unfolding mean_intensity_def
  using assms by (intro np_mean_const) auto

lemma analyze_uniform:
  assumes "0 < w" "0 < h"
  shows "analyze_image_issues (uniform_image w h (r, g, b)) =
           Inr (blur_message 0 #
                (if (of_nat (unat (bgr2gray (b, g, r))) :: rat) < 70
                 then [dark_message (of_nat (unat (bgr2gray (b, g, r))))] else []))"
  using assms
  by (simp add: uniform_image_def analyze_rgb rectangular_replicate intensity_uniform
        laplacian_variance_uniform mean_intensity_uniform)

lemma gray_of_gray: "bgr2gray (v, v, v) = v"
proof -
  have "unat v * 3735 + unat v * 19235 + unat v * 9798 + 16384 = unat v * 32768 + 16384"
    by simp
  then have "(unat v * 3735 + unat v * 19235 + unat v * 9798 + 16384) div 32768 = unat v"
    by simp
  then show ?thesis by (simp add: bgr2gray_def)
qed

subsection \<open>The checkerboard\<close>

lemma gray_black: "bgr2gray (0, 0, 0) = 0"
  by (simp add: bgr2gray_def)

lemma gray_white: "bgr2gray (255, 255, 255) = 255"
  by (simp add: bgr2gray_def)

lemma checkerboard_rect: "rectangular (checkerboard 8 8)"
  by (simp add: checkerboard_def rectangular_def upt_rec)

lemma checkerboard_gray:
  "intensity_field (checkerboard 8 8) =
     [[0, 255, 0, 255, 0, 255, 0, 255], [255, 0, 255, 0, 255, 0, 255, 0],
      [0, 255, 0, 255, 0, 255, 0, 255], [255, 0, 255, 0, 255, 0, 255, 0],
      [0, 255, 0, 255, 0, 255, 0, 255], [255, 0, 255, 0, 255, 0, 255, 0],
      [0, 255, 0, 255, 0, 255, 0, 255], [255, 0, 255, 0, 255, 0, 255, 0]]"
  by (simp add: checkerboard_def intensity_field_def gray_black gray_white upt_rec)

lemma checkerboard_laplacian:
  "Laplacian
     [[0, 255, 0, 255, 0, 255, 0, 255], [255, 0, 255, 0, 255, 0, 255, 0],
      [0, 255, 0, 255, 0, 255, 0, 255], [255, 0, 255, 0, 255, 0, 255, 0],
      [0, 255, 0, 255, 0, 255, 0, 255], [255, 0, 255, 0, 255, 0, 255, 0],
      [0, 255, 0, 255, 0, 255, 0, 255], [255, 0, 255, 0, 255, 0, 255, 0]] =
     [[1020, - 1020, 1020, - 1020, 1020, - 1020, 1020, - 1020],
      [- 1020, 1020, - 1020, 1020, - 1020, 1020, - 1020, 1020],
      [1020, - 1020, 1020, - 1020, 1020, - 1020, 1020, - 1020],
      [- 1020, 1020, - 1020, 1020, - 1020, 1020, - 1020, 1020],
      [1020, - 1020, 1020, - 1020, 1020, - 1020, 1020, - 1020],
      [- 1020, 1020, - 1020, 1020, - 1020, 1020, - 1020, 1020],
      [1020, - 1020, 1020, - 1020, 1020, - 1020, 1020, - 1020],
      [- 1020, 1020, - 1020, 1020, - 1020, 1020, - 1020, 1020]]"
  by (simp add: Laplacian_def pixel_at_def borderInterpolate_def upt_rec)

lemma checkerboard_variance: "laplacian_variance (intensity_field (checkerboard 8 8)) = 1040400"
  unfolding checkerboard_gray
  by (simp add: laplacian_variance_def checkerboard_laplacian np_var_def np_mean_def)

lemma checkerboard_mean: "mean_intensity (intensity_field (checkerboard 8 8)) = 255 / 2"
  unfolding checkerboard_gray
  by (simp add: mean_intensity_def np_mean_def)


lemma analyze_dark_pixel:
  "analyze_image_issues (uniform_image 1 1 (7, 7, 7)) = Inr [blur_message 0, dark_message 7]"
  by (simp add: analyze_uniform gray_of_gray)


subsection \<open>Preprocessing\<close>

lemma rectangular_map: "rectangular rows \<Longrightarrow> rectangular (map (map f) rows)"
  by (cases rows) (auto simp: rectangular_def list_all_iff)

lemma rectangular_convert: "valid_image img \<Longrightarrow> rectangular (convert_RGB img)"
  by (cases img) (simp_all add: rectangular_map)

lemma resize_nearest_contract: "resize_contract resize_nearest"
  by (simp add: resize_contract_def resize_nearest_def)

lemma nat_scaled:
  "n \<le> 255 \<Longrightarrow> 0 \<le> (of_nat n :: rat) / 255 \<and> (of_nat n :: rat) / 255 \<le> 1"
  by simp

lemma scaled_range:
  "0 \<le> (of_nat (unat (v :: u8)) :: rat) / 255 \<and> (of_nat (unat v) :: rat) / 255 \<le> 1"
proof (rule nat_scaled)
  have "unat v < 2 ^ 8" using unsigned_less [of v] by simp
  then show "unat v \<le> 255" by simp
qed

subsection \<open>The results column\<close>

lemma written_lines: "concat (map (\<lambda>c. case c of Write s \<Rightarrow> [s] | _ \<Rightarrow> []) (map Write issues)) = issues"
  by (induction issues) simp_all

lemma written_issues_results:
  "written_issues [Subheader t, result_banner score,
                   Expander l (technical_details score issues)] = issues"
  by (cases issues) (simp_all add: technical_details_def written_lines del: map_map)

lemma analysis_results_Inr:
  assumes "analyze_image_issues img = Inr issues"
  shows "analysis_results model resize img =
           Inr [Subheader ''Analysis Results:'',
                result_banner (model (preprocess_image resize img)),
                Expander ''Show Technical Details''
                  (technical_details (model (preprocess_image resize img)) issues)]"
  using assms by (simp add: analysis_results_def Let_def)

lemma analysis_results_Inl:
  assumes "analyze_image_issues img = Inl e"
  shows "analysis_results model resize img = Inl e"
  using assms by (simp add: analysis_results_def Let_def)

subsection \<open>Rounding\<close>

lemma round_half_even_bounds:
  assumes "of_int a \<le> x" and "x \<le> of_int b"
  shows "a \<le> round_half_even x \<and> round_half_even x \<le> b"
proof -
  let ?f = "\<lfloor>x\<rfloor>"
  have lo: "a \<le> ?f" using assms(1) by (simp add: le_floor_iff)
  have hi: "?f \<le> b" using assms(2) by (simp add: floor_le_iff)
  have frac: "x - of_int ?f < 1 / 2 \<or> ?f + 1 \<le> b"
  proof (cases "x = of_int b")
    case True
    then show ?thesis by simp
  next
    case False
    with assms(2) have "x < of_int b" by simp
    then have "?f < b" by (simp add: floor_less_iff)
    then show ?thesis by simp
  qed
  show ?thesis
    using lo hi frac by (auto simp: round_half_even_def Let_def)
qed

lemma percent_range:
  assumes "1 / 2 \<le> c" and "c \<le> 1"
  shows "\<exists>n. format_0pct c = str_nat n @ ''%'' \<and> 50 \<le> n \<and> n \<le> 100"
proof -
  have "of_int 50 \<le> \<bar>c\<bar> * 100" and "\<bar>c\<bar> * 100 \<le> of_int 100"
    using assms by simp_all
  then have b: "50 \<le> round_half_even (\<bar>c\<bar> * 100) \<and> round_half_even (\<bar>c\<bar> * 100) \<le> 100"
    by (rule round_half_even_bounds)
  have "\<not> c < 0" using assms(1) by simp
  then have "format_0pct c = str_nat (nat (round_half_even (\<bar>c\<bar> * 100))) @ ''%''"
    by (simp add: format_0pct_def)
  moreover have "50 \<le> nat (round_half_even (\<bar>c\<bar> * 100))"
    using b by linarith
  moreover have "nat (round_half_even (\<bar>c\<bar> * 100)) \<le> 100"
    using b by linarith
  ultimately show ?thesis by blast
qed

lemma results_determined:
  assumes "model1 (preprocess_image resize1 img1) = model2 (preprocess_image resize2 img2)"
    and "analyze_image_issues img1 = analyze_image_issues img2"
  shows "analysis_results model1 resize1 img1 = analysis_results model2 resize2 img2"
  using assms by (simp add: analysis_results_def Let_def split: sum.split)

section \<open>Score interpretation\<close>



section \<open>Failure of the analyzer\<close>


section \<open>Blur and darkness thresholds\<close>





section \<open>Shape of the issue list\<close>

text \<open>
  C5. Whenever the analyzer returns an issue list, every Blur entry in it stands before
  every Darkness entry, and a list with neither a Blur nor a Darkness entry is empty.
  On a valid three-channel image on which both checks flag, the list is the Blur message
  followed by the Darkness message; when neither check flags, it is empty.
\<close>

theorem issue_order:
  "(analyze_image_issues img = Inr issues \<longrightarrow>
      (\<forall>i j. i < length issues \<and> j < length issues
             \<and> is_blur_issue (issues ! i) \<and> is_dark_issue (issues ! j) \<longrightarrow> i < j)
      \<and> ((\<forall>s \<in> set issues. \<not> is_blur_issue s \<and> \<not> is_dark_issue s) \<longrightarrow> issues = []))
   \<and> (rectangular p \<and> laplacian_variance (intensity_field p) < 100
         \<and> mean_intensity (intensity_field p) < 70 \<longrightarrow>
        analyze_image_issues (ModeRGB p) =
          Inr [blur_message (laplacian_variance (intensity_field p)),
               dark_message (mean_intensity (intensity_field p))])
   \<and> (rectangular p \<and> \<not> laplacian_variance (intensity_field p) < 100
         \<and> \<not> mean_intensity (intensity_field p) < 70 \<longrightarrow>
        analyze_image_issues (ModeRGB p) = Inr [])"
proof (intro conjI impI)
  assume "analyze_image_issues img = Inr issues"
  then obtain v b where form:
    "issues = (if v < 100 then [blur_message v] else []) @ (if b < 70 then [dark_message b] else [])"
    using analyze_form by blast
  show "\<forall>i j. i < length issues \<and> j < length issues
             \<and> is_blur_issue (issues ! i) \<and> is_dark_issue (issues ! j) \<longrightarrow> i < j"
    unfolding form by (auto simp: nth_Cons' less_Suc_eq split: if_splits)
  show "(\<forall>s \<in> set issues. \<not> is_blur_issue s \<and> \<not> is_dark_issue s) \<Longrightarrow> issues = []"
    unfolding form by (auto split: if_splits)
qed (simp_all add: analyze_rgb)


theorem issue_order_witness:
  "analyze_image_issues (uniform_image 1 1 (7, 7, 7)) = Inr [blur_message 0, dark_message 7]
   \<and> is_blur_issue ([blur_message 0, dark_message 7] ! 0)
   \<and> is_dark_issue ([blur_message 0, dark_message 7] ! 1)
   \<and> (0 :: nat) < 1
   \<and> analyze_image_issues (ModeRGB (checkerboard 8 8)) = Inr []"
proof -
  note t = issue_order [of "uniform_image 1 1 (7, 7, 7)" "[blur_message 0, dark_message 7]"
                           "checkerboard 8 8"]
  have a: "analyze_image_issues (uniform_image 1 1 (7, 7, 7))
             = Inr [blur_message 0, dark_message 7]"
    by (rule analyze_dark_pixel)
  have c: "rectangular (checkerboard 8 8)
           \<and> \<not> laplacian_variance (intensity_field (checkerboard 8 8)) < 100
           \<and> \<not> mean_intensity (intensity_field (checkerboard 8 8)) < 70"
    by (simp add: checkerboard_rect checkerboard_variance checkerboard_mean)
  have k1: "is_blur_issue ([blur_message 0, dark_message 7] ! 0)"
    by simp
  have k2: "is_dark_issue ([blur_message 0, dark_message 7] ! 1)"
    by simp
  have p: "0 < length [blur_message 0, dark_message 7]
           \<and> 1 < length [blur_message 0, dark_message 7]
           \<and> is_blur_issue ([blur_message 0, dark_message 7] ! 0)
           \<and> is_dark_issue ([blur_message 0, dark_message 7] ! 1)"
    using k1 k2 by simp
  note o = t [THEN conjunct1, THEN mp, OF a, THEN conjunct1, THEN spec, THEN spec, THEN mp, OF p]
  note e = t [THEN conjunct2, THEN conjunct2, THEN mp, OF c]
  show ?thesis by (rule conjI [OF a conjI [OF k1 conjI [OF k2 conjI [OF o e]]]])
qed

text \<open>
  C10. An issue list returned by the analyzer holds at most one Blur entry and at most
  one Darkness entry, so at most two entries, and no entry twice.
\<close>

theorem issue_count:
  assumes "analyze_image_issues img = Inr issues"
  shows "length (filter is_blur_issue issues) \<le> 1
       \<and> length (filter is_dark_issue issues) \<le> 1
       \<and> length issues \<le> 2
       \<and> distinct issues"
proof -
  obtain v b where form:
    "issues = (if v < 100 then [blur_message v] else []) @ (if b < 70 then [dark_message b] else [])"
    using assms analyze_form by blast
  show ?thesis unfolding form by simp
qed


theorem issue_count_witness:
  "analyze_image_issues (uniform_image 1 1 (7, 7, 7)) = Inr [blur_message 0, dark_message 7]
   \<and> length (filter is_blur_issue [blur_message 0, dark_message 7]) \<le> 1
   \<and> length (filter is_dark_issue [blur_message 0, dark_message 7]) \<le> 1
   \<and> length [blur_message 0, dark_message 7] \<le> 2
   \<and> distinct [blur_message 0, dark_message 7]"
  using issue_count [OF analyze_dark_pixel] analyze_dark_pixel by blast




section \<open>The tensor given to the classifier\<close>

text \<open>
  C2. For every valid image, single-channel or three-channel, of any width and height,
  and every resizer that returns an image of the requested size, \<open>preprocess_image\<close>
  returns an array of shape (1, 224, 224, 3) whose elements all lie between 0 and 1.
\<close>

theorem preprocess_shape_and_range:
  assumes "resize_contract resize" and "valid_image img"
  shows "has_shape4 (preprocess_image resize img) (1, 224, 224, 3)
       \<and> (\<forall>v \<in> set (elements4 (preprocess_image resize img)). 0 \<le> v \<and> v \<le> 1)"
proof -
  let ?r = "resize (224, 224) (convert_RGB img)"
  have rc: "rectangular (convert_RGB img)"
    using assms(2) by (rule rectangular_convert)
  have len: "length ?r = 224" and rows: "\<forall>row \<in> set ?r. length row = 224"
    using assms(1) rc unfolding resize_contract_def by blast+
  have shape: "has_shape4 (preprocess_image resize img) (1, 224, 224, 3)"
    using len rows
    by (auto simp: has_shape4_def preprocess_image_def expand_dims0_def np_array_rgb_def
          list_all_iff)
  have range: "\<forall>v \<in> set (elements4 (preprocess_image resize img)). 0 \<le> v \<and> v \<le> 1"
    using scaled_range
    by (auto simp: elements4_def preprocess_image_def expand_dims0_def np_array_rgb_def
          simp del: of_nat_unat)
  show ?thesis using shape range by (rule conjI)
qed

theorem preprocess_shape_and_range_witness:
  "has_shape4 (preprocess_image resize_nearest (ModeL [[7]])) (1, 224, 224, 3)
   \<and> has_shape4 (preprocess_image resize_nearest (ModeRGB [[(1, 2, 3), (4, 5, 6)]]))
         (1, 224, 224, 3)"
proof -
  have v1: "valid_image (ModeL [[7]])" by (simp add: rectangular_def)
  have v2: "valid_image (ModeRGB [[(1, 2, 3), (4, 5, 6)]])" by (simp add: rectangular_def)
  note a = preprocess_shape_and_range [OF resize_nearest_contract v1, THEN conjunct1]
  note b = preprocess_shape_and_range [OF resize_nearest_contract v2, THEN conjunct1]
  show ?thesis by (rule conjI [OF a b])
qed

section \<open>The results column\<close>

text \<open>
  C6. The issues written in the results column do not depend on the classifier: for any
  two classifiers, whatever scores they give, the column written for an image lists
  exactly the issues the analyzer returns for that image, and when the analyzer fails
  the column fails with it under either classifier.
\<close>

theorem issues_independent_of_score:
  "(analyze_image_issues img = Inr issues \<longrightarrow>
      (\<exists>out1 out2. analysis_results model1 resize img = Inr out1
                 \<and> analysis_results model2 resize img = Inr out2
                 \<and> written_issues out1 = issues \<and> written_issues out2 = issues))
   \<and> (analyze_image_issues img = Inl e \<longrightarrow>
        analysis_results model1 resize img = Inl e
      \<and> analysis_results model2 resize img = Inl e)"
  by (simp add: analysis_results_Inr analysis_results_Inl written_issues_results)

theorem issues_independent_of_score_witness:
  "\<exists>out1 out2.
      analysis_results (\<lambda>t. 3 / 4) resize_nearest (uniform_image 1 1 (7, 7, 7)) = Inr out1
    \<and> analysis_results (\<lambda>t. 1 / 4) resize_nearest (uniform_image 1 1 (7, 7, 7)) = Inr out2
    \<and> written_issues out1 = [blur_message 0, dark_message 7]
    \<and> written_issues out2 = [blur_message 0, dark_message 7]"
  by (rule issues_independent_of_score [THEN conjunct1, THEN mp, OF analyze_dark_pixel])

text \<open>
  C8. For a score between 0 and 1 the confidence shown is the score itself when it is
  above 0.5 and one minus the score otherwise; this value lies between 0.5 and 1 and is
  printed as a whole percentage between 50 and 100. The results column is determined by
  the score and the outcome of the analyzer alone.
\<close>

theorem confidence_range:
  assumes "0 \<le> s" and "s \<le> 1"
  shows "(\<exists>c n. c = (if 1 / 2 < s then s else 1 - s) \<and> 1 / 2 \<le> c \<and> c \<le> 1
            \<and> hd (technical_details s issues)
                = Write (if 1 / 2 < s then good_confidence c else bad_confidence c)
            \<and> format_0pct c = str_nat n @ ''%'' \<and> 50 \<le> n \<and> n \<le> 100)
       \<and> (model1 (preprocess_image resize1 img1) = model2 (preprocess_image resize2 img2)
            \<and> analyze_image_issues img1 = analyze_image_issues img2 \<longrightarrow>
          analysis_results model1 resize1 img1 = analysis_results model2 resize2 img2)"
proof (rule conjI)
  let ?c = "if 1 / 2 < s then s else 1 - s"
  have r: "1 / 2 \<le> ?c \<and> ?c \<le> 1" using assms by auto
  then obtain n where n: "format_0pct ?c = str_nat n @ ''%''" "50 \<le> n" "n \<le> 100"
    using percent_range [of ?c] by blast
  have h: "hd (technical_details s issues)
             = Write (if 1 / 2 < s then good_confidence ?c else bad_confidence ?c)"
    by (simp add: technical_details_def)
  show "\<exists>c n. c = ?c \<and> 1 / 2 \<le> c \<and> c \<le> 1
            \<and> hd (technical_details s issues)
                = Write (if 1 / 2 < s then good_confidence c else bad_confidence c)
            \<and> format_0pct c = str_nat n @ ''%'' \<and> 50 \<le> n \<and> n \<le> 100"
    using r n h by blast
next
  show "model1 (preprocess_image resize1 img1) = model2 (preprocess_image resize2 img2)
            \<and> analyze_image_issues img1 = analyze_image_issues img2 \<longrightarrow>
          analysis_results model1 resize1 img1 = analysis_results model2 resize2 img2"
    using results_determined by blast
qed

theorem confidence_range_witness:
  "(\<exists>c n. c = (7 / 10 :: rat) \<and> 1 / 2 \<le> c \<and> c \<le> 1
        \<and> hd (technical_details (3 / 10) []) = Write (bad_confidence c)
        \<and> format_0pct c = str_nat n @ ''%'' \<and> 50 \<le> n \<and> n \<le> 100)
   \<and> analysis_results (\<lambda>t. 3 / 10) resize_nearest (uniform_image 1 1 (7, 7, 7))
       = analysis_results (\<lambda>t. 3 / 10) resize_nearest (uniform_image 2 2 (7, 7, 7))"
proof -
  have h1: "(0 :: rat) \<le> 3 / 10" and h2: "(3 / 10 :: rat) \<le> 1" by simp_all
  note t = confidence_range [OF h1 h2, of "[]" "\<lambda>t. 3 / 10" resize_nearest
      "uniform_image 1 1 (7, 7, 7)" "\<lambda>t. 3 / 10" resize_nearest "uniform_image 2 2 (7, 7, 7)"]
  have a: "\<exists>c n. c = (7 / 10 :: rat) \<and> 1 / 2 \<le> c \<and> c \<le> 1
        \<and> hd (technical_details (3 / 10) []) = Write (bad_confidence c)
        \<and> format_0pct c = str_nat n @ ''%'' \<and> 50 \<le> n \<and> n \<le> 100"
    using t [THEN conjunct1] by simp
  have pre: "(\<lambda>t. 3 / 10 :: rat) (preprocess_image resize_nearest (uniform_image 1 1 (7, 7, 7)))
               = (\<lambda>t. 3 / 10) (preprocess_image resize_nearest (uniform_image 2 2 (7, 7, 7)))
             \<and> analyze_image_issues (uniform_image 1 1 (7, 7, 7))
                 = analyze_image_issues (uniform_image 2 2 (7, 7, 7))"
    by (simp add: analyze_uniform)
  note b = t [THEN conjunct2, THEN mp, OF pre]
  show ?thesis by (rule conjI [OF a b])
qed

end
